theory Spec2Isabelle
  imports Main
begin

section \<open>The HoldersForm component (src/components/HoldersForm.tsx)\<close>

text \<open>
  The component is a React form. Its handlers are embedded as functions that return the
  ordered list of calls they make to the outside (the caller-supplied callbacks, the
  form library, \<^verbatim>\<open>fetch\<close> and \<^verbatim>\<open>toast\<close>) together with
  what they return or throw. The rows of the form are objects that the form library
  keeps and the handlers hold by reference, so the form is a store: a list of
  references and the content of each object. Everything the component imports but this
  file does not define (the dictionary strings, \<^verbatim>\<open>nodeUrl\<close>, \<^verbatim>\<open>isValidTokenId\<close>,
  \<^verbatim>\<open>formSchema\<close>, the network) is a parameter.
\<close>

subsection \<open>Data\<close>

datatype DurationType = days | weeks | months

text \<open>\<^verbatim>\<open>duration?: string | Date\<close>: a date is its time value in milliseconds.\<close>

datatype duration_value = DurationString string | DurationDate int

text \<open>One element of \<^verbatim>\<open>FormData['formData']\<close>.\<close>

record FormRow =
  tokenId :: string
  minAmount :: string
  tokenName :: string
  isNFT :: bool
  isDurationSelect :: bool
  durationType :: DurationType
  isCollapsed :: bool
  duration :: "duration_value option"

record FormData =
  formData :: "FormRow list"

text \<open>
  \<^verbatim>\<open>TokenDetails\<close> is declared outside this file; the component reads its
  \<^verbatim>\<open>name\<close> and \<^verbatim>\<open>type\<close> fields only.
\<close>

record TokenDetails =
  name :: string
  type :: string

text \<open>The props that are values; the four setter props are calls, see \<open>effect\<close>.\<close>

record HoldersFormProps =
  tokenDetailsList :: "TokenDetails list option"
  isBalancesFetching :: bool
  progress :: nat

text \<open>The entries of \<^verbatim>\<open>dictionary/en.json\<close> that the handlers read.\<close>

record dictionary =
  httpError :: string
  wrongTokenId :: string

subsection \<open>Errors\<close>

text \<open>A thrown JavaScript \<^verbatim>\<open>Error\<close>: its name and its message.\<close>

datatype js_error = JsError (err_name: string) (err_message: string)

text \<open>\<^verbatim>\<open>Error.prototype.toString\<close>.\<close>

definition toString :: "js_error \<Rightarrow> string" where
  "toString e =
     (if err_name e = [] then err_message e
      else if err_message e = [] then err_name e
      else err_name e @ '': '' @ err_message e)"

text \<open>
  Reading a property of \<^verbatim>\<open>undefined\<close> throws a \<^verbatim>\<open>TypeError\<close>
  (the wording of the message is the engine's).
\<close>

definition undefined_read :: js_error where
  "undefined_read = JsError ''TypeError'' ''Cannot read properties of undefined''"

text \<open>A number inside a template literal: its decimal digits.\<close>

fun string_of_nat :: "nat \<Rightarrow> string" where
  "string_of_nat n =
     (if n < 10 then [''0123456789'' ! n]
      else string_of_nat (n div 10) @ [''0123456789'' ! (n mod 10)])"

declare string_of_nat.simps [simp del]

subsection \<open>The network\<close>

text \<open>
  \<^verbatim>\<open>await fetch(url)\<close> either throws or gives a response with its
  \<^verbatim>\<open>ok\<close> flag, its \<^verbatim>\<open>status\<close> and what
  \<^verbatim>\<open>await response.json()\<close> would do.
\<close>

datatype json_result = JsonThrows js_error | JsonValue TokenDetails

datatype fetch_result =
    FetchThrows js_error
  | Response (ok: bool) (status: nat) (json: json_result)

text \<open>The imports of the component that are not part of this file.\<close>

record deps =
  dict :: dictionary
  nodeUrl :: string
  isValidTokenId :: "string \<Rightarrow> bool"
  formSchema :: "TokenDetails list \<Rightarrow> FormData \<Rightarrow> bool"
  fetch :: "string \<Rightarrow> fetch_result"

subsection \<open>Calls to the outside\<close>

text \<open>The argument of \<^verbatim>\<open>setData\<close> has type \<^verbatim>\<open>any\<close>; \<open>JsArray []\<close> is \<^verbatim>\<open>[]\<close>.\<close>

datatype js_value = JsArray "js_value list"

text \<open>
  A value written to one field of a row, by \<^verbatim>\<open>field.onChange\<close> or
  \<^verbatim>\<open>setValue\<close> of the form library: the field of the path
  \<^verbatim>\<open>formData.index.field\<close> and the value. A duration of \<open>None\<close> is
  \<^verbatim>\<open>undefined\<close>.
\<close>

datatype field_write =
    TokenIdValue string
  | MinAmountValue string
  | DurationValue "duration_value option"
  | DurationTypeValue DurationType
  | IsDurationSelectValue bool

datatype effect =
    Fetch string
  | SetTokenDetailsList "TokenDetails list"
  | Update nat FormRow
  | ToastError string
  | SetFormData "FormRow list"
  | SetData js_value
  | SetShouldFetch bool
  | FieldOnChange nat field_write
  | FieldOnBlur nat
  | SetValue nat field_write

text \<open>\<^verbatim>\<open>xs[i]\<close> in JavaScript: \<^verbatim>\<open>undefined\<close> out of range.\<close>

definition array_get :: "'a list \<Rightarrow> nat \<Rightarrow> 'a option" where
  "array_get xs i = (if i < length xs then Some (xs ! i) else None)"

subsection \<open>The form's rows as objects\<close>

text \<open>
  \<^verbatim>\<open>getValues().formData\<close> is the form library's own array of row objects:
  \<open>refs\<close> lists the objects of the rows in order, \<open>objects\<close> gives the content of
  each object, and \<open>fresh\<close> is the next unused reference. \<open>row_at\<close> reads the row
  at an index, \<open>form_rows\<close> reads all rows.
\<close>

type_synonym ref = nat

record form =
  refs :: "ref list"
  objects :: "ref \<Rightarrow> FormRow"
  fresh :: ref

definition row_at :: "form \<Rightarrow> nat \<Rightarrow> FormRow" where
  "row_at st i = objects st (refs st ! i)"

definition form_rows :: "form \<Rightarrow> FormRow list" where
  "form_rows st = map (objects st) (refs st)"

subsection \<open>fetchTokenData\<close>

text \<open>
  The function is asynchronous. Its argument \<open>formRow\<close> (the source's parameter
  \<^verbatim>\<open>formData\<close>) is a reference to a row object of the form, \<open>None\<close> when the
  caller passed \<^verbatim>\<open>undefined\<close>. The function reads the fields of that object only
  after \<^verbatim>\<open>await fetch(url)\<close> and \<^verbatim>\<open>await response.json()\<close>, in one
  synchronous stretch: \<open>later\<close> is the content of the row objects at that moment. What
  was written into the object while the request was pending is what the function reads.

  The body of the \<^verbatim>\<open>try\<close> block: the calls made, and either the value
  returned or the error thrown inside the block.
\<close>

definition fetchTokenData_try ::
  "deps \<Rightarrow> HoldersFormProps \<Rightarrow> string \<Rightarrow> nat \<Rightarrow> ref option \<Rightarrow> (ref \<Rightarrow> FormRow)
     \<Rightarrow> effect list \<times> (js_error + TokenDetails)" where
  "fetchTokenData_try d props url index formRow later =
     (case fetch d url of
        FetchThrows e \<Rightarrow> ([Fetch url], Inl e)
      | Response rok rstatus rjson \<Rightarrow>
          if \<not> rok then
            ([Fetch url],
             Inl (JsError ''Error'' (httpError (dict d) @ '' '' @ string_of_nat rstatus)))
          else
            (case rjson of
               JsonThrows e \<Rightarrow> ([Fetch url], Inl e)
             | JsonValue data \<Rightarrow>
                 (let called =
                    [Fetch url,
                     SetTokenDetailsList
                       (case tokenDetailsList props of
                          Some l \<Rightarrow> l @ [data]
                        | None \<Rightarrow> [data])]
                  in case formRow of
                       None \<Rightarrow> (called, Inl undefined_read)
                     | Some a \<Rightarrow>
                         (called @
                          [Update index
                             \<lparr>tokenId = tokenId (later a),
                              minAmount = minAmount (later a),
                              tokenName = name data,
                              isNFT = (type data = ''NON_FUNGIBLE_UNIQUE''),
                              isDurationSelect = isDurationSelect (later a),
                              durationType = durationType (later a),
                              isCollapsed = isCollapsed (later a),
                              duration = duration (later a)\<rparr>],
                          Inr data))))"

text \<open>
  The whole function: \<open>Inr (Some data)\<close> is the returned value, \<open>Inr None\<close> is
  \<^verbatim>\<open>undefined\<close> (the \<^verbatim>\<open>catch\<close> block returns nothing), \<open>Inl e\<close>
  is an error thrown out of the \<^verbatim>\<open>catch\<close> block to the caller.
\<close>

definition fetchTokenData ::
  "deps \<Rightarrow> HoldersFormProps \<Rightarrow> string \<Rightarrow> nat \<Rightarrow> ref option \<Rightarrow> (ref \<Rightarrow> FormRow)
     \<Rightarrow> effect list \<times> (js_error + TokenDetails option)" where
  "fetchTokenData d props url index formRow later =
     (case fetchTokenData_try d props url index formRow later of
        (called, Inr data) \<Rightarrow> (called, Inr (Some data))
      | (called, Inl error) \<Rightarrow>
          (let called' = called @ [ToastError (toString error)]
           in case formRow of
                None \<Rightarrow> (called', Inl undefined_read)
              | Some a \<Rightarrow>
                  (called' @
                   [Update index
                      \<lparr>tokenId = tokenId (later a),
                       minAmount = minAmount (later a),
                       tokenName = wrongTokenId (dict d),
                       isNFT = isNFT (later a),
                       isDurationSelect = isDurationSelect (later a),
                       durationType = durationType (later a),
                       isCollapsed = isCollapsed (later a),
                       duration = duration (later a)\<rparr>],
                   Inr None)))"

subsection \<open>onSubmit and the form's submit handler\<close>

definition onSubmit :: "FormData \<Rightarrow> effect list" where
  "onSubmit data = [SetFormData (formData data), SetData (JsArray []), SetShouldFetch True]"

text \<open>
  \<^verbatim>\<open>handleSubmit(onSubmit)\<close> of the form library: the resolver is built from
  \<^verbatim>\<open>formSchema(tokenDetailsList || [])\<close> with \<^verbatim>\<open>raw: true\<close>, so a
  form that validates reaches \<open>onSubmit\<close> with the form's own values, and one that does
  not validate does not reach it.
\<close>

definition handleSubmit :: "deps \<Rightarrow> HoldersFormProps \<Rightarrow> FormData \<Rightarrow> effect list" where
  "handleSubmit d props values =
     (if formSchema d (case tokenDetailsList props of Some l \<Rightarrow> l | None \<Rightarrow> []) values
      then onSubmit values
      else [])"

subsection \<open>The token-id input's handlers\<close>

text \<open>
  \<open>st\<close> is the form when the handler runs, \<open>tid\<close> the source's parameter
  \<^verbatim>\<open>tokenId\<close>. A non-empty string is truthy. \<open>handleTokenIdBlur\<close> passes the
  row object \<^verbatim>\<open>getValues().formData[index]\<close> itself, not a copy, and awaits
  \<open>fetchTokenData\<close>; \<open>later\<close> is the content of the row objects when the response is
  handled. The result is the list of calls made, the handler's own \<^verbatim>\<open>catch\<close>
  block included.
\<close>

definition handleTokenIdBlur ::
  "deps \<Rightarrow> HoldersFormProps \<Rightarrow> form \<Rightarrow> string \<Rightarrow> nat \<Rightarrow> (ref \<Rightarrow> FormRow)
     \<Rightarrow> effect list" where
  "handleTokenIdBlur d props st tid index later =
     (if tid \<noteq> [] \<and> isValidTokenId d tid then
        (let url = nodeUrl d @ ''/api/v1/tokens/'' @ tid
         in case fetchTokenData d props url index (array_get (refs st) index) later of
              (called, Inl error) \<Rightarrow> called @ [ToastError (toString error)]
            | (called, Inr _) \<Rightarrow> called)
      else [])"

text \<open>The error that the \<^verbatim>\<open>catch\<close> block of \<open>handleTokenIdBlur\<close> receives, when it runs.\<close>

definition handleTokenIdBlur_caught ::
  "deps \<Rightarrow> HoldersFormProps \<Rightarrow> form \<Rightarrow> string \<Rightarrow> nat \<Rightarrow> (ref \<Rightarrow> FormRow)
     \<Rightarrow> js_error option" where
  "handleTokenIdBlur_caught d props st tid index later =
     (if tid \<noteq> [] \<and> isValidTokenId d tid then
        (case snd (fetchTokenData d props (nodeUrl d @ ''/api/v1/tokens/'' @ tid) index
                     (array_get (refs st) index) later) of
           Inl error \<Rightarrow> Some error
         | Inr _ \<Rightarrow> None)
      else None)"

text \<open>
  \<open>handleTokenIdChange\<close> is synchronous and has no \<^verbatim>\<open>try\<close>: it reads the row
  object as it is when the handler runs, and the second component is the error it
  throws, if any.
\<close>

definition handleTokenIdChange ::
  "deps \<Rightarrow> form \<Rightarrow> string \<Rightarrow> nat \<Rightarrow> effect list \<times> js_error option" where
  "handleTokenIdChange d st tid index =
     (if tid = [] \<and> \<not> isValidTokenId d tid then
        (case array_get (refs st) index of
           None \<Rightarrow> ([], Some undefined_read)
         | Some a \<Rightarrow>
             ([Update index
                 \<lparr>tokenId = tokenId (objects st a),
                  minAmount = minAmount (objects st a),
                  tokenName = [],
                  isNFT = isNFT (objects st a),
                  isDurationSelect = isDurationSelect (objects st a),
                  durationType = durationType (objects st a),
                  isCollapsed = isCollapsed (objects st a),
                  duration = duration (objects st a)\<rparr>],
              None))
      else ([], None))"

subsection \<open>What the form library's calls do to the form\<close>

text \<open>
  \<^verbatim>\<open>update(index, row)\<close> puts a new object with the given content at the index:
  an object that was there before stays as it is, and is no longer a row of the form.
  \<^verbatim>\<open>field.onChange\<close> and \<^verbatim>\<open>setValue\<close> write one field of the row
  object at the index, in place. The component has no call that adds or removes a row,
  and reads a row before it writes one, so a write outside the list is not modelled: it
  leaves the form as it is.
\<close>

fun write_field :: "field_write \<Rightarrow> FormRow \<Rightarrow> FormRow" where
  "write_field (TokenIdValue v) r = r\<lparr>tokenId := v\<rparr>"
| "write_field (MinAmountValue v) r = r\<lparr>minAmount := v\<rparr>"
| "write_field (DurationValue v) r = r\<lparr>duration := v\<rparr>"
| "write_field (DurationTypeValue v) r = r\<lparr>durationType := v\<rparr>"
| "write_field (IsDurationSelectValue v) r = r\<lparr>isDurationSelect := v\<rparr>"

definition write_in_place :: "nat \<Rightarrow> field_write \<Rightarrow> form \<Rightarrow> form" where
  "write_in_place i w st =
     (if i < length (refs st) then
        st\<lparr>objects := (objects st)(refs st ! i := write_field w (objects st (refs st ! i)))\<rparr>
      else st)"

definition replace_row :: "nat \<Rightarrow> FormRow \<Rightarrow> form \<Rightarrow> form" where
  "replace_row i r st =
     (if i < length (refs st) then
        st\<lparr>refs := (refs st)[i := fresh st],
           objects := (objects st)(fresh st := r),
           fresh := Suc (fresh st)\<rparr>
      else st)"

fun apply_effect :: "effect \<Rightarrow> form \<Rightarrow> form" where
  "apply_effect (Update i r) st = replace_row i r st"
| "apply_effect (FieldOnChange i w) st = write_in_place i w st"
| "apply_effect (SetValue i w) st = write_in_place i w st"
| "apply_effect _ st = st"

definition apply_effects :: "effect list \<Rightarrow> form \<Rightarrow> form" where
  "apply_effects called st = fold apply_effect called st"

subsection \<open>Events\<close>

text \<open>
  The events of the rendered form. This file binds a handler of its own to a change and
  a blur of a row's token-id input, to a change of a row's duration switch, and to the
  submission of the form. The other inputs (minimum amount, duration, duration type,
  date picker) are bound to the form library alone: a change of one calls
  \<^verbatim>\<open>field.onChange\<close>, a blur calls \<^verbatim>\<open>field.onBlur\<close>, and no code of
  this file runs.

  \<open>later\<close> is the content of the row objects when the response to the lookup that a
  blur starts is handled; only a blur of the token-id input reads it.
\<close>

datatype event =
    TokenIdChange nat string
  | TokenIdBlur nat string
  | DurationSwitchChange nat bool
  | Submit
  | MinAmountChange nat string
  | DurationChange nat "duration_value option"
  | DurationTypeChange nat DurationType
  | OtherFieldBlur nat

definition handle_event ::
  "deps \<Rightarrow> HoldersFormProps \<Rightarrow> form \<Rightarrow> (ref \<Rightarrow> FormRow) \<Rightarrow> event
     \<Rightarrow> effect list \<times> js_error option" where
  "handle_event d props st later ev =
     (case ev of
        TokenIdChange index v \<Rightarrow>
          (let called = [FieldOnChange index (TokenIdValue v)];
               r = handleTokenIdChange d (apply_effects called st) v index
           in (called @ fst r, snd r))
      | TokenIdBlur index v \<Rightarrow>
          ([FieldOnBlur index] @ handleTokenIdBlur d props st v index later, None)
      | DurationSwitchChange index b \<Rightarrow>
          ([SetValue index (IsDurationSelectValue b),
            SetValue index (DurationValue (Some (DurationString [])))], None)
      | Submit \<Rightarrow> (handleSubmit d props \<lparr>formData = form_rows st\<rparr>, None)
      | MinAmountChange index v \<Rightarrow> ([FieldOnChange index (MinAmountValue v)], None)
      | DurationChange index v \<Rightarrow> ([FieldOnChange index (DurationValue v)], None)
      | DurationTypeChange index v \<Rightarrow> ([FieldOnChange index (DurationTypeValue v)], None)
      | OtherFieldBlur index \<Rightarrow> ([FieldOnBlur index], None))"

text \<open>
  A session in which the response to each lookup arrives before the next event: the
  calls made over a list of events, the form changing as they go.
\<close>

fun run :: "deps \<Rightarrow> HoldersFormProps \<Rightarrow> form \<Rightarrow> event list \<Rightarrow> effect list" where
  "run d props st [] = []"
| "run d props st (ev # evs) =
     (let called = fst (handle_event d props st (objects st) ev)
      in called @ run d props (apply_effects called st) evs)"

subsection \<open>Reading a list of calls\<close>

fun fetch_url :: "effect \<Rightarrow> string option" where
  "fetch_url (Fetch u) = Some u"
| "fetch_url _ = None"

definition fetches_of :: "effect list \<Rightarrow> string list" where
  "fetches_of called = List.map_filter fetch_url called"

fun update_of :: "effect \<Rightarrow> (nat \<times> FormRow) option" where
  "update_of (Update i r) = Some (i, r)"
| "update_of _ = None"

definition updates_of :: "effect list \<Rightarrow> (nat \<times> FormRow) list" where
  "updates_of called = List.map_filter update_of called"

fun toast_of :: "effect \<Rightarrow> string option" where
  "toast_of (ToastError s) = Some s"
| "toast_of _ = None"

definition toasts_of :: "effect list \<Rightarrow> string list" where
  "toasts_of called = List.map_filter toast_of called"

fun token_details_set :: "effect \<Rightarrow> TokenDetails list option" where
  "token_details_set (SetTokenDetailsList l) = Some l"
| "token_details_set _ = None"

definition token_details_sets_of :: "effect list \<Rightarrow> TokenDetails list list" where
  "token_details_sets_of called = List.map_filter token_details_set called"

text \<open>The setter props of \<^verbatim>\<open>HoldersFormProps\<close>, and the one a call goes to.\<close>

datatype callback = CbSetFormData | CbSetData | CbSetShouldFetch | CbSetTokenDetailsList

fun callback_of :: "effect \<Rightarrow> callback option" where
  "callback_of (SetFormData _) = Some CbSetFormData"
| "callback_of (SetData _) = Some CbSetData"
| "callback_of (SetShouldFetch _) = Some CbSetShouldFetch"
| "callback_of (SetTokenDetailsList _) = Some CbSetTokenDetailsList"
| "callback_of _ = None"

definition callbacks_of :: "effect list \<Rightarrow> callback list" where
  "callbacks_of called = List.map_filter callback_of called"

subsection \<open>Rendering a row\<close>

text \<open>
  The widgets of one row, in document order. \<open>field\<close> is \<^verbatim>\<open>fields[index]\<close> and
  \<open>val\<close> is \<^verbatim>\<open>getValues().formData[index]\<close>. Labels and validation messages are
  left out. The block of duration widgets is in the document whenever the row is an NFT
  row; \<open>duration_block_class\<close> is the class that shows or hides it.
\<close>

datatype widget =
    TokenIdInput
  | TokenNameText string
  | MinAmountInput
  | DurationSwitch
  | DurationNumberInput
  | DurationTypeSelect
  | DatePicker

definition render_row :: "FormRow \<Rightarrow> FormRow \<Rightarrow> widget list" where
  "render_row field val =
     [TokenIdInput]
     @ (if tokenName field \<noteq> [] then [TokenNameText (tokenName field)] else [])
     @ [MinAmountInput]
     @ (if isNFT field then
          [DurationSwitch]
          @ (if isDurationSelect val then [DurationNumberInput, DurationTypeSelect]
             else [DatePicker])
        else [])"

definition duration_block_class :: "FormRow \<Rightarrow> string" where
  "duration_block_class val = (if isCollapsed val then ''visible'' else ''hidden'')"

fun time_window_widget :: "widget \<Rightarrow> bool" where
  "time_window_widget DurationSwitch = True"
| "time_window_widget DurationNumberInput = True"
| "time_window_widget DurationTypeSelect = True"
| "time_window_widget DatePicker = True"
| "time_window_widget _ = False"

fun is_input :: "widget \<Rightarrow> bool" where
  "is_input (TokenNameText _) = False"
| "is_input _ = True"

subsection \<open>The outcome of a lookup\<close>

text \<open>
  What a lookup fetches: the token's details when the response is ok and its body parses,
  nothing when the request throws, the response is not ok or the body does not parse.
\<close>

definition lookup_result :: "fetch_result \<Rightarrow> TokenDetails option" where
  "lookup_result r =
     (case r of
        FetchThrows _ \<Rightarrow> None
      | Response rok _ rjson \<Rightarrow>
          if rok then (case rjson of JsonValue data \<Rightarrow> Some data | JsonThrows _ \<Rightarrow> None)
          else None)"

subsection \<open>A concrete setting\<close>

text \<open>
  One setting in which the functions above can be run: a node that knows the NFT
  collection \<open>0.0.1001\<close> and the fungible token \<open>0.0.2002\<close>, answers 404 for every
  other token, and a validator that accepts identifiers starting with \<open>0.0.\<close>.
\<close>

definition demo_nft :: TokenDetails where
  "demo_nft = \<lparr>name = ''Apes'', type = ''NON_FUNGIBLE_UNIQUE''\<rparr>"

definition demo_ft :: TokenDetails where
  "demo_ft = \<lparr>name = ''Gold'', type = ''FUNGIBLE_COMMON''\<rparr>"

definition demo_fetch :: "string \<Rightarrow> fetch_result" where
  "demo_fetch url =
     (if url = ''node/api/v1/tokens/0.0.1001'' then Response True 200 (JsonValue demo_nft)
      else if url = ''node/api/v1/tokens/0.0.2002'' then Response True 200 (JsonValue demo_ft)
      else Response False 404 (JsonThrows (JsError ''SyntaxError'' ''Unexpected token'')))"

definition demo_deps :: deps where
  "demo_deps =
     \<lparr>dict = \<lparr>httpError = ''HTTP error'', wrongTokenId = ''Wrong token id''\<rparr>,
      nodeUrl = ''node'',
      isValidTokenId = (\<lambda>s. take 4 s = ''0.0.'' \<and> 4 < length s),
      formSchema = (\<lambda>known data. list_all (\<lambda>r. tokenId r \<noteq> []) (formData data)),
      fetch = demo_fetch\<rparr>"

definition demo_props :: HoldersFormProps where
  "demo_props = \<lparr>tokenDetailsList = Some [demo_nft], isBalancesFetching = False, progress = 0\<rparr>"

definition demo_row :: FormRow where
  "demo_row =
     \<lparr>tokenId = ''0.0.1001'', minAmount = ''1'', tokenName = [], isNFT = False,
      isDurationSelect = False, durationType = days, isCollapsed = False,
      duration = Some (DurationString [])\<rparr>"

text \<open>A form with the one row \<open>demo_row\<close>, held by the object \<open>0\<close>.\<close>

definition demo_form :: form where
  "demo_form = \<lparr>refs = [0], objects = (\<lambda>a. demo_row), fresh = 1\<rparr>"


section \<open>Auxiliary facts\<close>

lemma row_literal_tokenName:
  "\<lparr>tokenId = tokenId fd, minAmount = minAmount fd, tokenName = n, isNFT = isNFT fd,
     isDurationSelect = isDurationSelect fd, durationType = durationType fd,
     isCollapsed = isCollapsed fd, duration = duration fd\<rparr>
   = fd\<lparr>tokenName := n\<rparr>"
  by (cases fd) simp

lemma row_literal_tokenName_isNFT:
  "\<lparr>tokenId = tokenId fd, minAmount = minAmount fd, tokenName = n, isNFT = b,
     isDurationSelect = isDurationSelect fd, durationType = durationType fd,
     isCollapsed = isCollapsed fd, duration = duration fd\<rparr>
   = fd\<lparr>tokenName := n, isNFT := b\<rparr>"
  by (cases fd) simp

lemma fetchTokenData_fetch_throws:
  "fetch d url = FetchThrows e \<Longrightarrow>
   fetchTokenData d props url index (Some a) later =
     ([Fetch url, ToastError (toString e),
       Update index ((later a)\<lparr>tokenName := wrongTokenId (dict d)\<rparr>)],
      Inr None)"
  by (simp add: fetchTokenData_def fetchTokenData_try_def row_literal_tokenName)

lemma fetchTokenData_not_ok:
  "fetch d url = Response False st j \<Longrightarrow>
   fetchTokenData d props url index (Some a) later =
     ([Fetch url,
       ToastError (toString (JsError ''Error'' (httpError (dict d) @ '' '' @ string_of_nat st))),
       Update index ((later a)\<lparr>tokenName := wrongTokenId (dict d)\<rparr>)],
      Inr None)"
  by (simp add: fetchTokenData_def fetchTokenData_try_def row_literal_tokenName)

lemma fetchTokenData_json_throws:
  "fetch d url = Response True st (JsonThrows e) \<Longrightarrow>
   fetchTokenData d props url index (Some a) later =
     ([Fetch url, ToastError (toString e),
       Update index ((later a)\<lparr>tokenName := wrongTokenId (dict d)\<rparr>)],
      Inr None)"
  by (simp add: fetchTokenData_def fetchTokenData_try_def row_literal_tokenName)

lemma fetchTokenData_success:
  "fetch d url = Response True st (JsonValue data) \<Longrightarrow>
   fetchTokenData d props url index (Some a) later =
     ([Fetch url,
       SetTokenDetailsList (case tokenDetailsList props of Some l \<Rightarrow> l @ [data] | None \<Rightarrow> [data]),
       Update index
         ((later a)\<lparr>tokenName := name data, isNFT := (type data = ''NON_FUNGIBLE_UNIQUE'')\<rparr>)],
      Inr (Some data))"
  by (simp add: fetchTokenData_def fetchTokenData_try_def row_literal_tokenName_isNFT)

lemma row_at_replace_row:
  "index < length (refs st) \<Longrightarrow> row_at (replace_row index r st) index = r"
  by (simp add: row_at_def replace_row_def)

lemma apply_effects_lookup_failed:
  "apply_effects [Fetch url, ToastError s, Update index r] st = replace_row index r st"
  by (simp add: apply_effects_def)

lemma apply_effects_lookup_succeeded:
  "apply_effects [Fetch url, SetTokenDetailsList l, Update index r] st = replace_row index r st"
  by (simp add: apply_effects_def)

text \<open>No call of the component adds or removes a row.\<close>

lemma length_apply_effect: "length (refs (apply_effect e st)) = length (refs st)"
  by (cases e) (simp_all add: replace_row_def write_in_place_def)

lemma length_apply_effects: "length (refs (apply_effects called st)) = length (refs st)"
  unfolding apply_effects_def
  by (induction called arbitrary: st) (simp_all add: length_apply_effect)

lemma fetchTokenData_cases:
  obtains (fetch_throws) e where "fetch d url = FetchThrows e"
  | (not_ok) st j where "fetch d url = Response False st j"
  | (json_throws) st e where "fetch d url = Response True st (JsonThrows e)"
  | (success) st data where "fetch d url = Response True st (JsonValue data)"
proof (cases "fetch d url")
  case (FetchThrows e)
  then show ?thesis by (rule fetch_throws)
next
  case (Response rok st j)
  show ?thesis
  proof (cases rok)
    case False
    with Response show ?thesis by (simp add: not_ok)
  next
    case True
    with Response show ?thesis by (cases j) (simp_all add: json_throws success)
  qed
qed

lemma fetches_of_Nil: "fetches_of [] = []"
  by (simp add: fetches_of_def map_filter_simps)

lemma fetches_of_Cons:
  "fetches_of (e # es) = (case fetch_url e of None \<Rightarrow> fetches_of es | Some u \<Rightarrow> u # fetches_of es)"
  by (simp add: fetches_of_def map_filter_simps split: option.splits)

lemma fetches_of_append: "fetches_of (xs @ ys) = fetches_of xs @ fetches_of ys"
  by (simp add: fetches_of_def map_filter_def)

lemma fetches_of_fetchTokenData:
  "fetches_of (fst (fetchTokenData d props url index fr later)) = [url]"
  by (cases fr; cases d url rule: fetchTokenData_cases)
     (simp_all add: fetchTokenData_def fetchTokenData_try_def fetches_of_Nil fetches_of_Cons)

lemma fetches_of_handleTokenIdBlur:
  "fetches_of (handleTokenIdBlur d props st tid index later) =
     (if tid \<noteq> [] \<and> isValidTokenId d tid then [nodeUrl d @ ''/api/v1/tokens/'' @ tid] else [])"
proof (cases "tid \<noteq> [] \<and> isValidTokenId d tid")
  case False
  then show ?thesis by (auto simp: handleTokenIdBlur_def fetches_of_Nil fetches_of_Cons)
next
  case True
  let ?r = "fetchTokenData d props (nodeUrl d @ ''/api/v1/tokens/'' @ tid) index
              (array_get (refs st) index) later"
  have "fetches_of (fst ?r) = [nodeUrl d @ ''/api/v1/tokens/'' @ tid]"
    by (rule fetches_of_fetchTokenData)
  moreover have "fetches_of (handleTokenIdBlur d props st tid index later) = fetches_of (fst ?r)"
    using True
    by (cases ?r) (auto simp: handleTokenIdBlur_def Let_def fetches_of_append
          fetches_of_Nil fetches_of_Cons split: sum.splits)
  ultimately show ?thesis using True by simp
qed

lemma fetches_of_handleTokenIdChange:
  "fetches_of (fst (handleTokenIdChange d st tid index)) = []"
  by (simp add: handleTokenIdChange_def fetches_of_Nil fetches_of_Cons split: option.splits)

lemma fetches_of_handleSubmit: "fetches_of (handleSubmit d props values) = []"
  by (simp add: handleSubmit_def onSubmit_def fetches_of_Nil fetches_of_Cons)

lemma map_filter_append:
  "List.map_filter f (xs @ ys) = List.map_filter f xs @ List.map_filter f ys"
  by (simp add: map_filter_def)

lemma handleTokenIdBlur_calls:
  "handleTokenIdBlur d props st tid index later =
     (if tid \<noteq> [] \<and> isValidTokenId d tid then
        fst (fetchTokenData d props (nodeUrl d @ ''/api/v1/tokens/'' @ tid) index
               (array_get (refs st) index) later)
        @ (case handleTokenIdBlur_caught d props st tid index later of
             Some error \<Rightarrow> [ToastError (toString error)]
           | None \<Rightarrow> [])
      else [])"
  by (simp add: handleTokenIdBlur_def handleTokenIdBlur_caught_def Let_def
        split: prod.splits sum.splits)

lemma fetchTokenData_result:
  "snd (fetchTokenData d props url index (Some a) later) = Inr (lookup_result (fetch d url))"
  by (cases d url rule: fetchTokenData_cases)
     (simp_all add: fetchTokenData_fetch_throws fetchTokenData_not_ok
        fetchTokenData_json_throws fetchTokenData_success lookup_result_def)

text \<open>
  The \<^verbatim>\<open>catch\<close> block of \<open>handleTokenIdBlur\<close> does run when the index is outside
  the form's rows: the row passed on is \<^verbatim>\<open>undefined\<close>, and reading it throws
  inside the \<^verbatim>\<open>catch\<close> block of \<open>fetchTokenData\<close>.
\<close>

lemma handleTokenIdBlur_catch_out_of_range:
  "handleTokenIdBlur_caught demo_deps demo_props demo_form ''0.0.1001'' 1 later
     = Some undefined_read"
  by (simp add: handleTokenIdBlur_caught_def array_get_def fetchTokenData_def
        fetchTokenData_try_def demo_deps_def demo_fetch_def demo_form_def)

lemma token_details_sets_of_fetchTokenData:
  assumes "fetch d url = Response True st (JsonValue data)"
  shows "token_details_sets_of (fst (fetchTokenData d props url index fr later)) =
           [(case tokenDetailsList props of Some l \<Rightarrow> l | None \<Rightarrow> []) @ [data]]"
  using assms
  by (cases fr; cases "tokenDetailsList props")
     (simp_all add: fetchTokenData_def fetchTokenData_try_def token_details_sets_of_def
        map_filter_simps)

lemma callbacks_of_fetchTokenData:
  "callbacks_of (fst (fetchTokenData d props url index fr later)) =
     (if lookup_result (fetch d url) \<noteq> None then [CbSetTokenDetailsList] else [])"
  by (cases fr; cases d url rule: fetchTokenData_cases)
     (simp_all add: fetchTokenData_def fetchTokenData_try_def callbacks_of_def map_filter_simps
        lookup_result_def)

lemma callbacks_of_handleTokenIdBlur:
  "callbacks_of (handleTokenIdBlur d props st tid index later) =
     (if tid \<noteq> [] \<and> isValidTokenId d tid
         \<and> lookup_result (fetch d (nodeUrl d @ ''/api/v1/tokens/'' @ tid)) \<noteq> None
      then [CbSetTokenDetailsList] else [])"
proof -
  have toast: "List.map_filter callback_of
                 (case c of Some error \<Rightarrow> [ToastError (toString error)] | None \<Rightarrow> []) = []" for c
    by (cases c) (simp_all add: map_filter_simps)
  show ?thesis
    using callbacks_of_fetchTokenData
            [of d props "nodeUrl d @ ''/api/v1/tokens/'' @ tid" index "array_get (refs st) index" later]
    by (simp add: handleTokenIdBlur_calls callbacks_of_def map_filter_append toast
          map_filter_simps)
qed

lemma callbacks_of_handleTokenIdChange:
  "callbacks_of (fst (handleTokenIdChange d st tid index)) = []"
  by (simp add: handleTokenIdChange_def callbacks_of_def map_filter_simps split: option.splits)

lemma callbacks_of_handleSubmit:
  "callbacks_of (handleSubmit d props values) =
     (if formSchema d (case tokenDetailsList props of Some l \<Rightarrow> l | None \<Rightarrow> []) values
      then [CbSetFormData, CbSetData, CbSetShouldFetch] else [])"
  by (simp add: handleSubmit_def onSubmit_def callbacks_of_def map_filter_simps)

lemma demo_session:
  "run demo_deps demo_props demo_form [TokenIdBlur 0 ''0.0.1001'', Submit] =
     [FieldOnBlur 0, Fetch ''node/api/v1/tokens/0.0.1001'',
      SetTokenDetailsList [demo_nft, demo_nft],
      Update 0 (demo_row\<lparr>tokenName := ''Apes'', isNFT := True\<rparr>),
      SetFormData [demo_row\<lparr>tokenName := ''Apes'', isNFT := True\<rparr>],
      SetData (JsArray []), SetShouldFetch True]"
proof -
  have resp: "fetch demo_deps ''node/api/v1/tokens/0.0.1001'' =
                Response True 200 (JsonValue demo_nft)"
    by (simp add: demo_deps_def demo_fetch_def)
  have looked_up:
    "fetchTokenData demo_deps demo_props ''node/api/v1/tokens/0.0.1001'' 0 (Some 0)
       (objects demo_form) =
     ([Fetch ''node/api/v1/tokens/0.0.1001'', SetTokenDetailsList [demo_nft, demo_nft],
       Update 0 (demo_row\<lparr>tokenName := ''Apes'', isNFT := True\<rparr>)], Inr (Some demo_nft))"
    using fetchTokenData_success [OF resp, of demo_props 0 0 "objects demo_form"]
    by (simp add: demo_props_def demo_nft_def demo_form_def)
  have accepted: "isValidTokenId demo_deps ''0.0.1001''"
    and url: "nodeUrl demo_deps @ ''/api/v1/tokens/'' @ ''0.0.1001'' = ''node/api/v1/tokens/0.0.1001''"
    by (simp_all add: demo_deps_def)
  have row: "array_get (refs demo_form) 0 = Some 0"
    by (simp add: array_get_def demo_form_def)
  have blur: "handleTokenIdBlur demo_deps demo_props demo_form ''0.0.1001'' 0 (objects demo_form) =
     [Fetch ''node/api/v1/tokens/0.0.1001'', SetTokenDetailsList [demo_nft, demo_nft],
       Update 0 (demo_row\<lparr>tokenName := ''Apes'', isNFT := True\<rparr>)]"
    using accepted url looked_up row by (simp add: handleTokenIdBlur_def)
  have after: "form_rows (replace_row 0 (demo_row\<lparr>tokenName := ''Apes'', isNFT := True\<rparr>) demo_form)
                 = [demo_row\<lparr>tokenName := ''Apes'', isNFT := True\<rparr>]"
    by (simp add: form_rows_def replace_row_def demo_form_def)
  have valid: "formSchema demo_deps (case tokenDetailsList demo_props of Some l \<Rightarrow> l | None \<Rightarrow> [])
     \<lparr>formData = [demo_row\<lparr>tokenName := ''Apes'', isNFT := True\<rparr>]\<rparr>"
    by (simp add: demo_deps_def demo_row_def)
  show ?thesis
    using blur valid after
    by (simp add: handle_event_def apply_effects_def handleSubmit_def onSubmit_def)
qed



section \<open>Submitting\<close>

text \<open>
  C1. A submitted form that passes schema validation reaches \<open>onSubmit\<close>, which calls
  \<^verbatim>\<open>setFormData\<close> with exactly the validated rows, then \<^verbatim>\<open>setData\<close> with
  the empty array, then \<^verbatim>\<open>setShouldFetch\<close> with true.
\<close>

theorem onSubmit_hands_over_validated_data:
  assumes "formSchema d (case tokenDetailsList props of Some l \<Rightarrow> l | None \<Rightarrow> []) values"
  shows "handleSubmit d props values =
           [SetFormData (formData values), SetData (JsArray []), SetShouldFetch True]
         \<and> onSubmit values = handleSubmit d props values"
  using assms by (simp add: handleSubmit_def onSubmit_def)

theorem onSubmit_hands_over_validated_data_witness:
  "formSchema demo_deps (case tokenDetailsList demo_props of Some l \<Rightarrow> l | None \<Rightarrow> [])
     \<lparr>formData = [demo_row]\<rparr>
   \<and> handleSubmit demo_deps demo_props \<lparr>formData = [demo_row]\<rparr> =
       [SetFormData [demo_row], SetData (JsArray []), SetShouldFetch True]"
proof -
  have valid: "formSchema demo_deps (case tokenDetailsList demo_props of Some l \<Rightarrow> l | None \<Rightarrow> [])
     \<lparr>formData = [demo_row]\<rparr>"
    by (simp add: demo_deps_def demo_row_def)
  from onSubmit_hands_over_validated_data [OF valid] valid show ?thesis by simp
qed

section \<open>The metadata lookup\<close>

text \<open>
  C2. When the lookup fails (the request throws \<open>e\<close>, or the response is not ok and
  \<open>e\<close> is the error made from its status, or parsing the body throws \<open>e\<close>),
  \<open>fetchTokenData\<close> calls \<^verbatim>\<open>toast.error\<close> with \<open>e\<close> as a string and then
  updates the row at the index with the content of the row object it was given, the
  \<open>tokenName\<close> being the dictionary's \<open>wrongTokenId\<close> message; the row of the form at
  that index then has that \<open>tokenName\<close>.
\<close>

theorem fetchTokenData_failure_toast_and_inline_message:
  assumes "fetch d url = FetchThrows e
         \<or> (\<exists>st j. fetch d url = Response False st j
               \<and> e = JsError ''Error'' (httpError (dict d) @ '' '' @ string_of_nat st))
         \<or> (\<exists>st. fetch d url = Response True st (JsonThrows e))"
  shows "fetchTokenData d props url index (Some a) later =
           ([Fetch url, ToastError (toString e),
             Update index ((later a)\<lparr>tokenName := wrongTokenId (dict d)\<rparr>)], Inr None)
         \<and> (index < length (refs form) \<longrightarrow>
              tokenName (row_at (apply_effects
                                   (fst (fetchTokenData d props url index (Some a) later)) form)
                           index)
                = wrongTokenId (dict d))"
proof -
  have run: "fetchTokenData d props url index (Some a) later =
           ([Fetch url, ToastError (toString e),
             Update index ((later a)\<lparr>tokenName := wrongTokenId (dict d)\<rparr>)], Inr None)"
    using assms
    by (auto simp: fetchTokenData_fetch_throws fetchTokenData_not_ok fetchTokenData_json_throws)
  show ?thesis
    by (simp add: run apply_effects_lookup_failed row_at_replace_row)
qed

theorem fetchTokenData_failure_toast_and_inline_message_witness:
  "fetch demo_deps ''node/api/v1/tokens/0.0.7'' =
     Response False 404 (JsonThrows (JsError ''SyntaxError'' ''Unexpected token''))
   \<and> fetchTokenData demo_deps demo_props ''node/api/v1/tokens/0.0.7'' 0 (Some 0)
        (objects demo_form) =
       ([Fetch ''node/api/v1/tokens/0.0.7'', ToastError ''Error: HTTP error 404'',
         Update 0 (demo_row\<lparr>tokenName := ''Wrong token id''\<rparr>)], Inr None)
   \<and> tokenName (row_at (apply_effects
        (fst (fetchTokenData demo_deps demo_props ''node/api/v1/tokens/0.0.7'' 0 (Some 0)
                (objects demo_form)))
        demo_form) 0) = ''Wrong token id''"
proof -
  have resp: "fetch demo_deps ''node/api/v1/tokens/0.0.7'' =
     Response False 404 (JsonThrows (JsError ''SyntaxError'' ''Unexpected token''))"
    by (simp add: demo_deps_def demo_fetch_def)
  have digits: "string_of_nat 404 = ''404''"
    by (simp add: string_of_nat.simps)
  have hyp: "fetch demo_deps ''node/api/v1/tokens/0.0.7'' =
               FetchThrows (JsError ''Error'' ''HTTP error 404'')
         \<or> (\<exists>st j. fetch demo_deps ''node/api/v1/tokens/0.0.7'' = Response False st j
               \<and> JsError ''Error'' ''HTTP error 404'' =
                   JsError ''Error'' (httpError (dict demo_deps) @ '' '' @ string_of_nat st))
         \<or> (\<exists>st. fetch demo_deps ''node/api/v1/tokens/0.0.7'' =
               Response True st (JsonThrows (JsError ''Error'' ''HTTP error 404'')))"
    using resp digits by (simp add: demo_deps_def)
  have shown: "toString (JsError ''Error'' ''HTTP error 404'') = ''Error: HTTP error 404''"
    by (simp add: toString_def)
  have message: "wrongTokenId (dict demo_deps) = ''Wrong token id''"
    by (simp add: demo_deps_def)
  have row: "objects demo_form 0 = demo_row" and in_range: "0 < length (refs demo_form)"
    by (simp_all add: demo_form_def)
  note fact = fetchTokenData_failure_toast_and_inline_message
         [OF hyp, of demo_props 0 0 "objects demo_form" demo_form]
  from fact [THEN conjunct1] fact [THEN conjunct2, rule_format, OF in_range] resp
  show ?thesis
    by (simp add: shown message row)
qed

text \<open>
  C3. When the lookup succeeds with \<open>data\<close>, the one row update of \<open>fetchTokenData\<close>
  is at the given index, with \<open>tokenName\<close> set to \<open>name data\<close> and \<open>isNFT\<close> true
  exactly when \<open>type data\<close> is \<open>NON_FUNGIBLE_UNIQUE\<close>; the row of the form at that index
  then has these two values.
\<close>

theorem fetchTokenData_success_enriches_row:
  assumes "fetch d url = Response True st (JsonValue data)"
  shows "updates_of (fst (fetchTokenData d props url index (Some a) later)) =
           [(index, (later a)\<lparr>tokenName := name data,
                               isNFT := (type data = ''NON_FUNGIBLE_UNIQUE'')\<rparr>)]
         \<and> (index < length (refs form) \<longrightarrow>
              tokenName (row_at (apply_effects
                                   (fst (fetchTokenData d props url index (Some a) later)) form)
                           index)
                = name data
              \<and> isNFT (row_at (apply_effects
                                  (fst (fetchTokenData d props url index (Some a) later)) form)
                          index)
                = (type data = ''NON_FUNGIBLE_UNIQUE''))"
  by (simp add: fetchTokenData_success [OF assms] updates_of_def map_filter_simps
        apply_effects_lookup_succeeded row_at_replace_row)

theorem fetchTokenData_success_enriches_row_witness:
  "fetch demo_deps ''node/api/v1/tokens/0.0.2002'' = Response True 200 (JsonValue demo_ft)
   \<and> updates_of (fst (fetchTokenData demo_deps demo_props ''node/api/v1/tokens/0.0.2002'' 0
                        (Some 0) (\<lambda>a. demo_row\<lparr>isNFT := True\<rparr>))) =
       [(0, demo_row\<lparr>tokenName := ''Gold'', isNFT := False\<rparr>)]
   \<and> tokenName (row_at (apply_effects
        (fst (fetchTokenData demo_deps demo_props ''node/api/v1/tokens/0.0.2002'' 0
                (Some 0) (\<lambda>a. demo_row\<lparr>isNFT := True\<rparr>)))
        (demo_form\<lparr>objects := (\<lambda>a. demo_row\<lparr>isNFT := True\<rparr>)\<rparr>)) 0) = ''Gold''
   \<and> \<not> isNFT (row_at (apply_effects
        (fst (fetchTokenData demo_deps demo_props ''node/api/v1/tokens/0.0.2002'' 0
                (Some 0) (\<lambda>a. demo_row\<lparr>isNFT := True\<rparr>)))
        (demo_form\<lparr>objects := (\<lambda>a. demo_row\<lparr>isNFT := True\<rparr>)\<rparr>)) 0)"
proof -
  have resp: "fetch demo_deps ''node/api/v1/tokens/0.0.2002'' =
                Response True 200 (JsonValue demo_ft)"
    by (simp add: demo_deps_def demo_fetch_def)
  have in_range: "0 < length (refs (demo_form\<lparr>objects := (\<lambda>a. demo_row\<lparr>isNFT := True\<rparr>)\<rparr>))"
    by (simp add: demo_form_def)
  note fact = fetchTokenData_success_enriches_row
         [OF resp, of demo_props 0 0 "\<lambda>a. demo_row\<lparr>isNFT := True\<rparr>"
            "demo_form\<lparr>objects := (\<lambda>a. demo_row\<lparr>isNFT := True\<rparr>)\<rparr>"]
  from fact [THEN conjunct1] fact [THEN conjunct2, rule_format, OF in_range] resp
  show ?thesis
    by (simp add: demo_ft_def)
qed

text \<open>
  C6. Called with a row, \<open>fetchTokenData\<close> never throws: it returns the fetched details
  when the lookup succeeds and \<^verbatim>\<open>undefined\<close> when it fails. So for an index inside
  the form's rows the \<^verbatim>\<open>catch\<close> block of \<open>handleTokenIdBlur\<close> does not run, and
  the calls of \<open>handleTokenIdBlur\<close> are those of \<open>fetchTokenData\<close> and no more.
\<close>

theorem fetchTokenData_never_throws:
  "snd (fetchTokenData d props url index (Some a) later) = Inr (lookup_result (fetch d url))
   \<and> (index < length (refs form) \<longrightarrow>
        handleTokenIdBlur_caught d props form tid index later' = None
        \<and> handleTokenIdBlur d props form tid index later' =
            (if tid \<noteq> [] \<and> isValidTokenId d tid then
               fst (fetchTokenData d props (nodeUrl d @ ''/api/v1/tokens/'' @ tid) index
                      (Some (refs form ! index)) later')
             else []))"
proof -
  have caught: "handleTokenIdBlur_caught d props form tid index later' = None"
    if "index < length (refs form)"
    using that by (simp add: handleTokenIdBlur_caught_def array_get_def fetchTokenData_result)
  show ?thesis
    by (simp add: fetchTokenData_result caught handleTokenIdBlur_calls array_get_def)
qed

theorem fetchTokenData_never_throws_witness:
  "snd (fetchTokenData demo_deps demo_props ''node/api/v1/tokens/0.0.1001'' 0 (Some 0)
          (objects demo_form))
     = Inr (Some demo_nft)
   \<and> handleTokenIdBlur_caught demo_deps demo_props demo_form ''0.0.7'' 0 (objects demo_form)
     = None
   \<and> handleTokenIdBlur demo_deps demo_props demo_form ''0.0.7'' 0 (objects demo_form) =
       [Fetch ''node/api/v1/tokens/0.0.7'', ToastError ''Error: HTTP error 404'',
        Update 0 (demo_row\<lparr>tokenName := ''Wrong token id''\<rparr>)]"
proof -
  have in_range: "0 < length (refs demo_form)" and row: "refs demo_form ! 0 = 0"
    and content: "objects demo_form 0 = demo_row"
    by (simp_all add: demo_form_def)
  have found: "lookup_result (fetch demo_deps ''node/api/v1/tokens/0.0.1001'') = Some demo_nft"
    by (simp add: demo_deps_def demo_fetch_def lookup_result_def)
  have accepted: "isValidTokenId demo_deps ''0.0.7''"
    by (simp add: demo_deps_def)
  have url: "nodeUrl demo_deps @ ''/api/v1/tokens/'' @ ''0.0.7'' = ''node/api/v1/tokens/0.0.7''"
    by (simp add: demo_deps_def)
  have resp: "fetch demo_deps ''node/api/v1/tokens/0.0.7'' =
     Response False 404 (JsonThrows (JsError ''SyntaxError'' ''Unexpected token''))"
    by (simp add: demo_deps_def demo_fetch_def)
  have digits: "string_of_nat 404 = ''404''"
    by (simp add: string_of_nat.simps)
  have failed: "fetchTokenData demo_deps demo_props ''node/api/v1/tokens/0.0.7'' 0 (Some 0)
                  (objects demo_form) =
       ([Fetch ''node/api/v1/tokens/0.0.7'', ToastError ''Error: HTTP error 404'',
        Update 0 (demo_row\<lparr>tokenName := ''Wrong token id''\<rparr>)], Inr None)"
    using fetchTokenData_not_ok [OF resp, of demo_props 0 0 "objects demo_form"] digits content
    by (simp add: toString_def demo_deps_def)
  note fact = fetchTokenData_never_throws
         [of demo_deps demo_props "''node/api/v1/tokens/0.0.1001''" 0 0 "objects demo_form"
             demo_form "''0.0.7''" "objects demo_form"]
  from fact [THEN conjunct1] fact [THEN conjunct2, rule_format, OF in_range]
  show ?thesis
    using row found accepted url failed by simp
qed




text \<open>
  C9. On a successful lookup \<^verbatim>\<open>setTokenDetailsList\<close> is called once, with the
  \<open>tokenDetailsList\<close> prop followed by the fetched details (with the fetched details
  alone when the prop is \<^verbatim>\<open>undefined\<close>). Nothing is removed or deduplicated: when
  that list comes back as the prop, a second successful lookup of the same token is
  called with the old list followed by the same details twice.
\<close>

theorem setTokenDetailsList_appends_without_dedup:
  assumes "fetch d url = Response True st (JsonValue data)"
  shows "token_details_sets_of (fst (fetchTokenData d props url index fr later)) =
           [(case tokenDetailsList props of Some l \<Rightarrow> l | None \<Rightarrow> []) @ [data]]
         \<and> token_details_sets_of
             (fst (fetchTokenData d
                     (props\<lparr>tokenDetailsList :=
                        Some ((case tokenDetailsList props of Some l \<Rightarrow> l | None \<Rightarrow> []) @ [data])\<rparr>)
                     url index' fr' later')) =
           [(case tokenDetailsList props of Some l \<Rightarrow> l | None \<Rightarrow> []) @ [data, data]]"
  by (simp add: token_details_sets_of_fetchTokenData [OF assms])

theorem setTokenDetailsList_appends_without_dedup_witness:
  "fetch demo_deps ''node/api/v1/tokens/0.0.1001'' = Response True 200 (JsonValue demo_nft)
   \<and> tokenDetailsList demo_props = Some [demo_nft]
   \<and> token_details_sets_of
       (fst (fetchTokenData demo_deps demo_props ''node/api/v1/tokens/0.0.1001'' 0 (Some 0)
               (objects demo_form)))
       = [[demo_nft, demo_nft]]
   \<and> token_details_sets_of
       (fst (fetchTokenData demo_deps (demo_props\<lparr>tokenDetailsList := Some [demo_nft, demo_nft]\<rparr>)
               ''node/api/v1/tokens/0.0.1001'' 0 (Some 0) (objects demo_form)))
       = [[demo_nft, demo_nft, demo_nft]]
   \<and> token_details_sets_of
       (fst (fetchTokenData demo_deps (demo_props\<lparr>tokenDetailsList := None\<rparr>)
               ''node/api/v1/tokens/0.0.1001'' 0 (Some 0) (objects demo_form)))
       = [[demo_nft]]"
proof -
  have resp: "fetch demo_deps ''node/api/v1/tokens/0.0.1001'' =
                Response True 200 (JsonValue demo_nft)"
    by (simp add: demo_deps_def demo_fetch_def)
  have known: "tokenDetailsList demo_props = Some [demo_nft]"
    by (simp add: demo_props_def)
  from setTokenDetailsList_appends_without_dedup
         [OF resp, of demo_props 0 "Some 0" "objects demo_form" 0 "Some 0" "objects demo_form"]
       setTokenDetailsList_appends_without_dedup
         [OF resp, of "demo_props\<lparr>tokenDetailsList := None\<rparr>" 0 "Some 0" "objects demo_form"
            0 "Some 0" "objects demo_form"]
       resp known
  show ?thesis by simp
qed

section \<open>Events and the network\<close>

text \<open>
  C4. The requests an event issues: a blur of a row's token-id input whose value is
  non-empty and accepted by \<open>isValidTokenId\<close> issues exactly one request, to
  \<open>nodeUrl/api/v1/tokens/tokenId\<close>; a blur with an empty or rejected value issues none,
  and no other event issues any.
\<close>

theorem lookup_request_only_on_valid_blur:
  "fetches_of (fst (handle_event d props form later ev)) =
     (case ev of
        TokenIdBlur index tid \<Rightarrow>
          if tid \<noteq> [] \<and> isValidTokenId d tid then [nodeUrl d @ ''/api/v1/tokens/'' @ tid]
          else []
      | _ \<Rightarrow> [])"
proof (cases ev)
  case (TokenIdChange index v)
  then show ?thesis
    by (simp add: handle_event_def Let_def fetches_of_Cons fetches_of_handleTokenIdChange)
next
  case (TokenIdBlur index tid)
  then show ?thesis
    using fetches_of_handleTokenIdBlur [of d props form tid index later]
    by (simp add: handle_event_def fetches_of_Nil fetches_of_Cons)
next
  case Submit
  then show ?thesis by (simp add: handle_event_def fetches_of_handleSubmit)
qed (simp_all add: handle_event_def fetches_of_Nil fetches_of_Cons)

section \<open>Rendering\<close>

text \<open>
  C5. The time-window widgets of a row (the duration switch, the duration number input,
  the duration-type select, the date picker) are in the rendered row only when the row's
  \<open>isNFT\<close> flag is true; the inputs of a row whose flag is false are the token-id input
  and the minimum-amount input, and beside them the row shows only the token's name,
  when it has one.
\<close>

theorem duration_widgets_only_for_nft:
  "filter time_window_widget (render_row field val) =
     (if isNFT field then
        (if isDurationSelect val then [DurationSwitch, DurationNumberInput, DurationTypeSelect]
         else [DurationSwitch, DatePicker])
      else [])
   \<and> (\<not> isNFT field \<longrightarrow>
        filter is_input (render_row field val) = [TokenIdInput, MinAmountInput]
        \<and> render_row field val =
            [TokenIdInput]
            @ (if tokenName field \<noteq> [] then [TokenNameText (tokenName field)] else [])
            @ [MinAmountInput])"
  by (simp add: render_row_def)

theorem duration_widgets_only_for_nft_witness:
  "\<not> isNFT (demo_row\<lparr>tokenName := ''Gold''\<rparr>)
   \<and> filter time_window_widget (render_row (demo_row\<lparr>tokenName := ''Gold''\<rparr>) demo_row) = []
   \<and> filter is_input (render_row (demo_row\<lparr>tokenName := ''Gold''\<rparr>) demo_row) =
       [TokenIdInput, MinAmountInput]
   \<and> render_row (demo_row\<lparr>tokenName := ''Gold''\<rparr>) demo_row =
       [TokenIdInput, TokenNameText ''Gold'', MinAmountInput]"
proof -
  have fungible: "\<not> isNFT (demo_row\<lparr>tokenName := ''Gold''\<rparr>)"
    by (simp add: demo_row_def)
  from duration_widgets_only_for_nft [of "demo_row\<lparr>tokenName := ''Gold''\<rparr>" demo_row] fungible
  show ?thesis by simp
qed

section \<open>The change handler\<close>

text \<open>
  C10. For a row of the form, \<open>handleTokenIdChange\<close> updates the row, setting its
  \<open>tokenName\<close> to the empty string, exactly when the new token id is empty and
  \<open>isValidTokenId\<close> rejects it; so, with a validator that rejects the empty string,
  exactly when the new token id is empty. For every non-empty token id, accepted by the
  validator or not, it makes no call and the form stays as it is.
\<close>

theorem handleTokenIdChange_resets_name_iff_empty:
  assumes "index < length (refs form)"
  shows "handleTokenIdChange d form tid index =
           (if tid = [] \<and> \<not> isValidTokenId d [] then
              ([Update index ((row_at form index)\<lparr>tokenName := []\<rparr>)], None)
            else ([], None))
         \<and> (\<not> isValidTokenId d [] \<longrightarrow>
              (updates_of (fst (handleTokenIdChange d form tid index)) =
                 [(index, (row_at form index)\<lparr>tokenName := []\<rparr>)]) = (tid = []))
         \<and> (tid \<noteq> [] \<longrightarrow>
              handleTokenIdChange d form tid index = ([], None)
              \<and> apply_effects (fst (handleTokenIdChange d form tid index)) form = form)"
  using assms
  by (auto simp: handleTokenIdChange_def array_get_def row_literal_tokenName updates_of_def
        map_filter_simps apply_effects_def row_at_def)

theorem handleTokenIdChange_resets_name_iff_empty_witness:
  "\<not> isValidTokenId demo_deps []
   \<and> handleTokenIdChange demo_deps (demo_form\<lparr>objects := (\<lambda>a. demo_row\<lparr>tokenName := ''Apes''\<rparr>)\<rparr>)
        [] 0 = ([Update 0 demo_row], None)
   \<and> handleTokenIdChange demo_deps (demo_form\<lparr>objects := (\<lambda>a. demo_row\<lparr>tokenName := ''Apes''\<rparr>)\<rparr>)
        ''0.0.'' 0 = ([], None)
   \<and> \<not> isValidTokenId demo_deps ''0.0.''
   \<and> handleTokenIdChange demo_deps (demo_form\<lparr>objects := (\<lambda>a. demo_row\<lparr>tokenName := ''Apes''\<rparr>)\<rparr>)
        ''0.0.1'' 0 = ([], None)
   \<and> isValidTokenId demo_deps ''0.0.1''"
proof -
  let ?form = "demo_form\<lparr>objects := (\<lambda>a. demo_row\<lparr>tokenName := ''Apes''\<rparr>)\<rparr>"
  have in_range: "0 < length (refs ?form)"
    and row: "row_at ?form 0 = demo_row\<lparr>tokenName := ''Apes''\<rparr>"
    by (simp_all add: demo_form_def row_at_def)
  have no_name: "demo_row\<lparr>tokenName := []\<rparr> = demo_row"
    by (simp add: demo_row_def)
  have rejected: "\<not> isValidTokenId demo_deps []" "\<not> isValidTokenId demo_deps ''0.0.''"
    and accepted: "isValidTokenId demo_deps ''0.0.1''"
    by (simp_all add: demo_deps_def)
  from handleTokenIdChange_resets_name_iff_empty [OF in_range, of demo_deps "[]", THEN conjunct1]
       handleTokenIdChange_resets_name_iff_empty [OF in_range, of demo_deps "''0.0.''", THEN conjunct1]
       handleTokenIdChange_resets_name_iff_empty [OF in_range, of demo_deps "''0.0.1''", THEN conjunct1]
  show ?thesis
    using rejected accepted no_name row by simp
qed

section \<open>The outward contract\<close>

text \<open>
  C7, as amended. The calls to the caller's setters are: \<^verbatim>\<open>setFormData\<close>,
  \<^verbatim>\<open>setData\<close> and \<^verbatim>\<open>setShouldFetch\<close> on a submission that validates, and
  \<^verbatim>\<open>setTokenDetailsList\<close> on a blur whose lookup succeeds; the only request is the
  lookup of a token by its identifier; and each of the four setters is called by some
  event, so the setters of the contract are four.
\<close>

theorem four_setter_callbacks:
  "callbacks_of (fst (handle_event d props form later ev)) =
     (case ev of
        Submit \<Rightarrow>
          if formSchema d (case tokenDetailsList props of Some l \<Rightarrow> l | None \<Rightarrow> [])
               \<lparr>formData = form_rows form\<rparr>
          then [CbSetFormData, CbSetData, CbSetShouldFetch] else []
      | TokenIdBlur index tid \<Rightarrow>
          if tid \<noteq> [] \<and> isValidTokenId d tid
             \<and> lookup_result (fetch d (nodeUrl d @ ''/api/v1/tokens/'' @ tid)) \<noteq> None
          then [CbSetTokenDetailsList] else []
      | _ \<Rightarrow> [])
   \<and> (fetches_of (fst (handle_event d props form later ev)) = []
        \<or> (\<exists>tid. fetches_of (fst (handle_event d props form later ev)) =
                    [nodeUrl d @ ''/api/v1/tokens/'' @ tid]))
   \<and> (\<forall>c. \<exists>d' props' form' later' ev'.
          c \<in> set (callbacks_of (fst (handle_event d' props' form' later' ev'))))"
proof -
  have each: "callbacks_of (fst (handle_event d props form later ev)) =
     (case ev of
        Submit \<Rightarrow>
          if formSchema d (case tokenDetailsList props of Some l \<Rightarrow> l | None \<Rightarrow> [])
               \<lparr>formData = form_rows form\<rparr>
          then [CbSetFormData, CbSetData, CbSetShouldFetch] else []
      | TokenIdBlur index tid \<Rightarrow>
          if tid \<noteq> [] \<and> isValidTokenId d tid
             \<and> lookup_result (fetch d (nodeUrl d @ ''/api/v1/tokens/'' @ tid)) \<noteq> None
          then [CbSetTokenDetailsList] else []
      | _ \<Rightarrow> [])" for d props form later ev
  proof (cases ev)
    case (TokenIdChange index v)
    then show ?thesis
      using callbacks_of_handleTokenIdChange
              [of d "apply_effects [FieldOnChange index (TokenIdValue v)] form" v index]
      by (simp add: handle_event_def Let_def callbacks_of_def map_filter_simps)
  next
    case (TokenIdBlur index tid)
    then show ?thesis
      using callbacks_of_handleTokenIdBlur [of d props form tid index later]
      by (simp add: handle_event_def callbacks_of_def map_filter_simps)
  next
    case Submit
    then show ?thesis by (simp add: handle_event_def callbacks_of_handleSubmit)
  qed (simp_all add: handle_event_def callbacks_of_def map_filter_simps)
  have rest: "fetches_of (fst (handle_event d props form later ev)) = []
        \<or> (\<exists>tid. fetches_of (fst (handle_event d props form later ev)) =
                    [nodeUrl d @ ''/api/v1/tokens/'' @ tid])"
  proof (cases ev)
    case (TokenIdBlur index tid)
    then show ?thesis
      using fetches_of_handleTokenIdBlur [of d props form tid index later]
      by (simp add: handle_event_def fetches_of_Cons)
  next
    case (TokenIdChange index v)
    then show ?thesis
      by (simp add: handle_event_def Let_def fetches_of_Cons fetches_of_handleTokenIdChange)
  qed (simp_all add: handle_event_def fetches_of_Nil fetches_of_Cons fetches_of_handleSubmit)
  have submit: "callbacks_of (fst (handle_event demo_deps demo_props demo_form later Submit)) =
                  [CbSetFormData, CbSetData, CbSetShouldFetch]"
    by (simp add: each demo_deps_def demo_row_def demo_form_def form_rows_def)
  have blur: "callbacks_of (fst (handle_event demo_deps demo_props demo_form later
                                   (TokenIdBlur 0 ''0.0.1001''))) = [CbSetTokenDetailsList]"
    by (simp add: each demo_deps_def demo_fetch_def lookup_result_def)
  have all: "\<exists>d' props' form' later' ev'.
               c \<in> set (callbacks_of (fst (handle_event d' props' form' later' ev')))"
    for c
  proof (cases c)
    case CbSetTokenDetailsList
    have "c \<in> set (callbacks_of (fst (handle_event demo_deps demo_props demo_form later
                                   (TokenIdBlur 0 ''0.0.1001''))))"
      by (simp add: blur CbSetTokenDetailsList)
    then show ?thesis by blast
  next
    case CbSetFormData
    have "c \<in> set (callbacks_of (fst (handle_event demo_deps demo_props demo_form later Submit)))"
      by (simp add: submit CbSetFormData)
    then show ?thesis by blast
  next
    case CbSetData
    have "c \<in> set (callbacks_of (fst (handle_event demo_deps demo_props demo_form later Submit)))"
      by (simp add: submit CbSetData)
    then show ?thesis by blast
  next
    case CbSetShouldFetch
    have "c \<in> set (callbacks_of (fst (handle_event demo_deps demo_props demo_form later Submit)))"
      by (simp add: submit CbSetShouldFetch)
    then show ?thesis by blast
  qed
  from each [of d props form later ev] rest all show ?thesis by blast
qed

text \<open>
  C7, as stated, says that the setters are exactly three. One session, a successful
  lookup followed by a submission, calls four different setters.
\<close>

theorem three_setter_callbacks_counterexample:
  "callbacks_of (run demo_deps demo_props demo_form [TokenIdBlur 0 ''0.0.1001'', Submit]) =
     [CbSetTokenDetailsList, CbSetFormData, CbSetData, CbSetShouldFetch]
   \<and> length (remdups
        (callbacks_of (run demo_deps demo_props demo_form [TokenIdBlur 0 ''0.0.1001'', Submit])))
       \<noteq> 3"
  by (simp only: demo_session) (simp add: callbacks_of_def map_filter_simps)

end
